theory Spec2Isabelle
  imports Main "HOL-Library.AList" "HOL-Library.Word"
begin

section \<open>Authorization model: \<^verbatim>\<open>src/models/user\<close> and \<^verbatim>\<open>src/api/deps/access.py\<close>\<close>

text \<open>
  Python values that reach a permission check. \<^verbatim>\<open>Role.has_permission\<close> is typed
  \<^verbatim>\<open>int | str\<close> and \<^verbatim>\<open>with_access_to\<close> is typed \<^verbatim>\<open>str | list[str]\<close>; the methods are
  dynamically typed, so one argument type covers the three shapes.
\<close>

datatype perm_arg = PName string | PId int | PList "string list"

text \<open>Every exception class that the modelled code can raise.\<close>

datatype error =
    RequiresPermission perm_arg
  | HTTPException nat string
  | TypeError
  | KeyError
  | AttributeError
  | ValueError
  | JSONDecodeError
  | UnicodeDecodeError
  | RecursionError

record permission =
  perm_id :: "int option"
  perm_name :: string
  perm_title :: string
  perm_description :: "string option"

record role =
  role_id :: "int option"
  role_name :: string
  role_title :: string
  role_description :: "string option"
  role_permissions :: "permission list"

record user =
  user_id :: "int option"
  email :: string
  first_name :: string
  last_name :: string
  email_verified :: bool
  hashed_password :: string
  is_active :: bool
  is_superuser :: bool
  roles :: "role list"
  permissions :: "permission list"

text \<open>Python's \<^verbatim>\<open>permission == p.name\<close>: a string equals a string; an int or a list never does.\<close>

fun eq_name :: "perm_arg \<Rightarrow> string \<Rightarrow> bool" where
  "eq_name (PName s) n = (s = n)"
| "eq_name (PId _) n = False"
| "eq_name (PList _) n = False"

text \<open>Python's \<^verbatim>\<open>permission == p.id\<close>, where the id is \<^verbatim>\<open>None\<close> until the row is stored.\<close>

fun eq_id :: "perm_arg \<Rightarrow> int option \<Rightarrow> bool" where
  "eq_id (PId i) j = (j = Some i)"
| "eq_id (PName _) j = False"
| "eq_id (PList _) j = False"

fun is_int :: "perm_arg \<Rightarrow> bool" where
  "is_int (PId _) = True"
| "is_int (PName _) = False"
| "is_int (PList _) = False"

text \<open>\<^verbatim>\<open>Role.has_permission\<close>\<close>

definition role_has_permission :: "role \<Rightarrow> perm_arg \<Rightarrow> bool" where
  "role_has_permission r permission =
     (if role_permissions r = [] then False
      else if is_int permission
        then list_ex (\<lambda>p. eq_id permission (perm_id p)) (role_permissions r)
      else list_ex (\<lambda>p. eq_name permission (perm_name p)) (role_permissions r))"

text \<open>\<^verbatim>\<open>User.has_permission\<close>: the flag \<^verbatim>\<open>has_perm\<close> is threaded through the two \<^verbatim>\<open>if\<close>s.\<close>

definition has_permission :: "user \<Rightarrow> perm_arg \<Rightarrow> bool" where
  "has_permission u permission =
     (let has_perm = False;
          has_perm = (if permissions u \<noteq> []
                      then list_ex (\<lambda>p. eq_name permission (perm_name p)) (permissions u)
                      else has_perm);
          has_perm = (if roles u \<noteq> []
                      then has_perm \<or> list_ex (\<lambda>r. role_has_permission r permission) (roles u)
                      else has_perm)
      in has_perm)"

text \<open>\<^verbatim>\<open>User.can\<close>: returns \<^verbatim>\<open>None\<close> or raises \<^verbatim>\<open>RequiresPermission(permission)\<close>.\<close>

definition can :: "user \<Rightarrow> perm_arg \<Rightarrow> error + unit" where
  "can u permission =
     (if is_superuser u then Inr ()
      else if \<not> has_permission u permission then Inl (RequiresPermission permission)
      else Inr ())"

text \<open>The loop \<^verbatim>\<open>for p in permission: user.can(p)\<close>; the first exception leaves the loop.\<close>

fun can_each :: "user \<Rightarrow> string list \<Rightarrow> error + unit" where
  "can_each u [] = Inr ()"
| "can_each u (p # ps) =
     (case can u (PName p) of Inl e \<Rightarrow> Inl e | Inr _ \<Rightarrow> can_each u ps)"

text \<open>
  The dependency that \<^verbatim>\<open>with_access_to(permission)\<close> builds, applied to a user. After the
  branch on \<^verbatim>\<open>isinstance(permission, list)\<close> the function ends with
  \<^verbatim>\<open>return user.can(permission)\<close> on the argument as it was passed.
\<close>

definition with_access_to :: "perm_arg \<Rightarrow> user \<Rightarrow> error + unit" where
  "with_access_to permission u =
     (case (case permission of
              PList ps \<Rightarrow> can_each u ps
            | _ \<Rightarrow> can u permission) of
        Inl e \<Rightarrow> Inl e
      | Inr _ \<Rightarrow> can u permission)"


section \<open>Signed tokens: \<^verbatim>\<open>src/lib/security.py\<close>\<close>

text \<open>The alphabet of \<^verbatim>\<open>base64.b64encode\<close> (RFC 4648, standard alphabet).\<close>

definition b64_alphabet :: string where
  "b64_alphabet = ''ABCDEFGHIJKLMNOPQRSTUVWXYZabcdefghijklmnopqrstuvwxyz0123456789+/''"

definition b64_char :: "nat \<Rightarrow> char" where
  "b64_char n = b64_alphabet ! (n mod 64)"

text \<open>
  \<^verbatim>\<open>base64.b64encode\<close>: three bytes give four characters; one or two bytes left over are
  padded with \<^verbatim>\<open>=\<close>.
\<close>

fun b64encode :: "8 word list \<Rightarrow> string" where
  "b64encode [] = []"
| "b64encode [a] =
     (let n = unat a * 65536
      in [b64_char (n div 262144), b64_char (n div 4096), CHR ''='', CHR ''=''])"
| "b64encode [a, b] =
     (let n = unat a * 65536 + unat b * 256
      in [b64_char (n div 262144), b64_char (n div 4096), b64_char (n div 64), CHR ''=''])"
| "b64encode (a # b # c # rest) =
     (let n = unat a * 65536 + unat b * 256 + unat c
      in b64_char (n div 262144) # b64_char (n div 4096) # b64_char (n div 64) # b64_char n
         # b64encode rest)"

text \<open>
  \<^verbatim>\<open>create_hmac\<close>: the digest \<^verbatim>\<open>hmac.new(secret_key, message, sha256).digest()\<close> of the
  standard library is the parameter \<open>hmac_sha256\<close> (key first, as in the call); the
  function base64-encodes it.
\<close>

definition create_hmac :: "(string \<Rightarrow> string \<Rightarrow> 8 word list) \<Rightarrow> string \<Rightarrow> string \<Rightarrow> string" where
  "create_hmac hmac_sha256 secret_key message = b64encode (hmac_sha256 secret_key message)"

text \<open>\<^verbatim>\<open>create_signed_token\<close>: the f-string \<^verbatim>\<open>f"{value}.{signature}"\<close>.\<close>

definition create_signed_token :: "(string \<Rightarrow> string \<Rightarrow> 8 word list) \<Rightarrow> string \<Rightarrow> string \<Rightarrow> string" where
  "create_signed_token hmac_sha256 v secret =
     (let signature = create_hmac hmac_sha256 secret v in v @ ''.'' @ signature)"

text \<open>Python's \<^verbatim>\<open>str.split(sep)\<close> for a one-character separator: every occurrence splits.\<close>

fun split_on :: "char \<Rightarrow> string \<Rightarrow> string list" where
  "split_on c [] = [[]]"
| "split_on c (x # xs) =
     (if x = c then [] # split_on c xs
      else (case split_on c xs of
              [] \<Rightarrow> [[x]]
            | w # ws \<Rightarrow> (x # w) # ws))"

text \<open>
  \<^verbatim>\<open>verify_signed_token\<close>: the unpacking \<^verbatim>\<open>value, sig = token.split(".")\<close> raises
  \<^verbatim>\<open>ValueError\<close> unless the split has exactly two parts.
\<close>

definition verify_signed_token :: "(string \<Rightarrow> string \<Rightarrow> 8 word list) \<Rightarrow> string \<Rightarrow> string \<Rightarrow> error + bool" where
  "verify_signed_token hmac_sha256 token secret =
     (case split_on (CHR ''.'') token of
        [v, sig] \<Rightarrow> Inr (sig = create_hmac hmac_sha256 secret v)
      | _ \<Rightarrow> Inl ValueError)"

section \<open>Session values\<close>

text \<open>
  What a session envelope can hold: the values \<^verbatim>\<open>json.loads\<close> produces. \<open>JNull\<close> is
  Python's \<^verbatim>\<open>None\<close>; a dict is an association list in insertion order.
\<close>

datatype json =
    JNull
  | JBool bool
  | JInt int
  | JStr string
  | JList "json list"
  | JDict "(string \<times> json) list"

text \<open>\<^verbatim>\<open>x[key]\<close> with a string key: only a dict can be subscripted by a string.\<close>

fun subscript :: "json \<Rightarrow> string \<Rightarrow> error + json" where
  "subscript (JDict d) k = (case map_of d k of None \<Rightarrow> Inl KeyError | Some v \<Rightarrow> Inr v)"
| "subscript _ k = Inl TypeError"

text \<open>\<^verbatim>\<open>x[key] = value\<close>\<close>

fun store_item :: "json \<Rightarrow> string \<Rightarrow> json \<Rightarrow> error + json" where
  "store_item (JDict d) k v = Inr (JDict (AList.update k v d))"
| "store_item _ k v = Inl TypeError"

text \<open>\<^verbatim>\<open>del x[key]\<close>\<close>

fun del_item :: "json \<Rightarrow> string \<Rightarrow> error + json" where
  "del_item (JDict d) k =
     (if map_of d k = None then Inl KeyError else Inr (JDict (AList.delete k d)))"
| "del_item _ k = Inl TypeError"

text \<open>\<^verbatim>\<open>x.get(key)\<close>: a dict method; any other value has no attribute \<^verbatim>\<open>get\<close>.\<close>

fun py_get :: "json \<Rightarrow> string \<Rightarrow> error + json" where
  "py_get (JDict d) k = Inr (case map_of d k of None \<Rightarrow> JNull | Some v \<Rightarrow> v)"
| "py_get _ k = Inl AttributeError"

fun starts_with :: "string \<Rightarrow> string \<Rightarrow> bool" where
  "starts_with [] ys = True"
| "starts_with (x # xs) [] = False"
| "starts_with (x # xs) (y # ys) = (x = y \<and> starts_with xs ys)"

fun substring :: "string \<Rightarrow> string \<Rightarrow> bool" where
  "substring k [] = (k = [])"
| "substring k (y # ys) = (starts_with k (y # ys) \<or> substring k ys)"

text \<open>
  \<^verbatim>\<open>key in x\<close> with a string key: key membership in a dict, element membership in a list,
  substring test in a string, \<^verbatim>\<open>TypeError\<close> otherwise.
\<close>

fun py_in :: "string \<Rightarrow> json \<Rightarrow> error + bool" where
  "py_in k (JDict d) = Inr (map_of d k \<noteq> None)"
| "py_in k (JList xs) = Inr (List.member xs (JStr k))"
| "py_in k (JStr t) = Inr (substring k t)"
| "py_in k _ = Inl TypeError"

text \<open>Truth value of a Python object, as \<^verbatim>\<open>if\<close> tests it.\<close>

fun truthy :: "json \<Rightarrow> bool" where
  "truthy JNull = False"
| "truthy (JBool b) = b"
| "truthy (JInt i) = (i \<noteq> 0)"
| "truthy (JStr t) = (t \<noteq> [])"
| "truthy (JList xs) = (xs \<noteq> [])"
| "truthy (JDict d) = (d \<noteq> [])"

section \<open>Session store: \<^verbatim>\<open>src/lib/memory/redis.py\<close>\<close>

text \<open>
  The Redis server as the middleware sees it: a key holds the stored bytes and the
  expiry (\<^verbatim>\<open>ex\<close>) given at the last \<^verbatim>\<open>SET\<close>. Expiry by the passing of time is not
  modelled; an expired key is an absent key.
\<close>

type_synonym redis = "string \<Rightarrow> (string \<times> nat option) option"

text \<open>
  The two functions of the \<^verbatim>\<open>json\<close> module that \<^verbatim>\<open>RedisMemory\<close> calls. \<^verbatim>\<open>json.loads\<close>
  returns the parsed value or raises: \<^verbatim>\<open>JSONDecodeError\<close> for text that is not JSON,
  \<^verbatim>\<open>RecursionError\<close> for a document nested too deeply.
\<close>

record codec =
  json_loads :: "string \<Rightarrow> error + json"
  json_dumps :: "json \<Rightarrow> string"

text \<open>
  The client is built with \<^verbatim>\<open>decode_responses=True\<close> (\<^verbatim>\<open>src/config/db/redis.py\<close>): a reply
  is decoded as strict UTF-8 before it is returned. A string of the model is the UTF-8
  byte sequence of the Python string, so decoding returns well-formed bytes unchanged.
  Well-formed sequences: one byte below 128; a lead byte 194..223 with one continuation
  byte; 224..239 with two; 240..244 with three; the second byte is narrowed after the
  lead bytes 224, 237, 240 and 244 (no overlong forms, no surrogates, nothing above
  U+10FFFF).
\<close>

definition continuation :: "char \<Rightarrow> bool" where
  "continuation c = (128 \<le> (of_char c :: nat) \<and> (of_char c :: nat) \<le> 191)"

definition second_of3 :: "nat \<Rightarrow> char \<Rightarrow> bool" where
  "second_of3 n b =
     (let m = (of_char b :: nat)
      in if n = 224 then 160 \<le> m \<and> m \<le> 191
         else if n = 237 then 128 \<le> m \<and> m \<le> 159
         else 128 \<le> m \<and> m \<le> 191)"

definition second_of4 :: "nat \<Rightarrow> char \<Rightarrow> bool" where
  "second_of4 n b =
     (let m = (of_char b :: nat)
      in if n = 240 then 144 \<le> m \<and> m \<le> 191
         else if n = 244 then 128 \<le> m \<and> m \<le> 143
         else 128 \<le> m \<and> m \<le> 191)"

fun valid_utf8 :: "string \<Rightarrow> bool" where
  "valid_utf8 [] = True"
| "valid_utf8 (a # rest) =
     (let n = (of_char a :: nat)
      in if n < 128 then valid_utf8 rest
         else if 194 \<le> n \<and> n \<le> 223 then
           (case rest of
              b # r \<Rightarrow> continuation b \<and> valid_utf8 r
            | _ \<Rightarrow> False)
         else if 224 \<le> n \<and> n \<le> 239 then
           (case rest of
              b # c # r \<Rightarrow> second_of3 n b \<and> continuation c \<and> valid_utf8 r
            | _ \<Rightarrow> False)
         else if 240 \<le> n \<and> n \<le> 244 then
           (case rest of
              b # c # d # r \<Rightarrow>
                second_of4 n b \<and> continuation c \<and> continuation d \<and> valid_utf8 r
            | _ \<Rightarrow> False)
         else False)"

text \<open>
  \<^verbatim>\<open>await self._redis_client.get(key)\<close>: \<^verbatim>\<open>None\<close> for an absent key, the decoded value,
  or \<^verbatim>\<open>UnicodeDecodeError\<close> when the stored bytes are not UTF-8.
\<close>

definition redis_get :: "redis \<Rightarrow> string \<Rightarrow> error + string option" where
  "redis_get mem k =
     (case mem k of
        None \<Rightarrow> Inr None
      | Some (data, _) \<Rightarrow>
          if valid_utf8 data then Inr (Some data) else Inl UnicodeDecodeError)"

text \<open>
  \<^verbatim>\<open>_make_key\<close>: \<^verbatim>\<open>f"session:{session_id}"\<close>; an identifier that is \<^verbatim>\<open>None\<close> formats as
  \<^verbatim>\<open>None\<close>.
\<close>

definition make_key :: "string option \<Rightarrow> string" where
  "make_key session_id =
     ''session:'' @ (case session_id of None \<Rightarrow> ''None'' | Some i \<Rightarrow> i)"

definition mem_clear :: "redis \<Rightarrow> string option \<Rightarrow> redis" where
  "mem_clear mem session_id = mem(make_key session_id := None)"

definition mem_has :: "redis \<Rightarrow> string option \<Rightarrow> bool" where
  "mem_has mem k = (mem (make_key k) \<noteq> None)"

text \<open>
  \<^verbatim>\<open>get_store\<close>: the read is outside the \<^verbatim>\<open>try\<close>, so its exception leaves the function;
  of the exceptions of \<^verbatim>\<open>json.loads\<close> only \<^verbatim>\<open>JSONDecodeError\<close> and \<^verbatim>\<open>AttributeError\<close> are
  caught and turned into \<^verbatim>\<open>None\<close>.
\<close>

definition get_store :: "codec \<Rightarrow> redis \<Rightarrow> string option \<Rightarrow> error + json" where
  "get_store js mem session_id =
     (case redis_get mem (make_key session_id) of
        Inl e \<Rightarrow> Inl e
      | Inr None \<Rightarrow> Inr JNull
      | Inr (Some data) \<Rightarrow>
          (case json_loads js data of
             Inr v \<Rightarrow> Inr v
           | Inl e \<Rightarrow>
               if e = JSONDecodeError \<or> e = AttributeError then Inr JNull else Inl e))"

text \<open>
  \<^verbatim>\<open>save_store\<close>: \<^verbatim>\<open>SET key value EX ttl\<close>. Its one caller, \<^verbatim>\<open>SessionIntegration.save\<close>,
  passes 900 seconds; the server's refusal of an expiry of 0 is outside the model.
\<close>

definition save_store :: "codec \<Rightarrow> redis \<Rightarrow> string option \<Rightarrow> json \<Rightarrow> nat option \<Rightarrow> redis" where
  "save_store js mem session_id data ttl =
     mem(make_key session_id \<mapsto> (json_dumps js data, ttl))"

section \<open>\<^verbatim>\<open>SessionIntegration\<close>: \<^verbatim>\<open>src/api/middlewares/session.py\<close>\<close>

record session =
  sess_id :: "string option"
  store :: json

text \<open>\<^verbatim>\<open>__init__\<close>\<close>

definition new_session :: "string option \<Rightarrow> session" where
  "new_session session_id =
     \<lparr>sess_id = session_id, store = JDict [(''store'', JDict [])]\<rparr>"

text \<open>
  The inner dict is mutated in place in the source; here the changed inner value is put
  back under the key \<^verbatim>\<open>store\<close> of the envelope.
\<close>

fun put_bucket :: "json \<Rightarrow> json \<Rightarrow> json" where
  "put_bucket (JDict d) b = JDict (AList.update ''store'' b d)"
| "put_bucket j b = j"

text \<open>\<^verbatim>\<open>__setitem__\<close>: \<^verbatim>\<open>self.store["store"][key] = value\<close>\<close>

definition setitem :: "session \<Rightarrow> string \<Rightarrow> json \<Rightarrow> error + session" where
  "setitem s k v =
     (case subscript (store s) ''store'' of
        Inl e \<Rightarrow> Inl e
      | Inr bucket \<Rightarrow>
          (case store_item bucket k v of
             Inl e \<Rightarrow> Inl e
           | Inr bucket' \<Rightarrow> Inr (s\<lparr>store := put_bucket (store s) bucket'\<rparr>)))"

text \<open>\<^verbatim>\<open>__getitem__\<close>: \<^verbatim>\<open>self.store["store"].get(key)\<close>\<close>

definition getitem :: "session \<Rightarrow> string \<Rightarrow> error + json" where
  "getitem s k =
     (case subscript (store s) ''store'' of
        Inl e \<Rightarrow> Inl e
      | Inr bucket \<Rightarrow> py_get bucket k)"

text \<open>\<^verbatim>\<open>__contains__\<close>: \<^verbatim>\<open>key in self.store["store"]\<close>\<close>

definition contains :: "session \<Rightarrow> string \<Rightarrow> error + bool" where
  "contains s k =
     (case subscript (store s) ''store'' of
        Inl e \<Rightarrow> Inl e
      | Inr bucket \<Rightarrow> py_in k bucket)"

text \<open>\<^verbatim>\<open>__delitem__\<close>: \<^verbatim>\<open>del self.store["store"][key]\<close>\<close>

definition delitem :: "session \<Rightarrow> string \<Rightarrow> error + session" where
  "delitem s k =
     (case subscript (store s) ''store'' of
        Inl e \<Rightarrow> Inl e
      | Inr bucket \<Rightarrow>
          (case del_item bucket k of
             Inl e \<Rightarrow> Inl e
           | Inr bucket' \<Rightarrow> Inr (s\<lparr>store := put_bucket (store s) bucket'\<rparr>)))"

definition load :: "codec \<Rightarrow> redis \<Rightarrow> session \<Rightarrow> error + session" where
  "load js mem s =
     (case get_store js mem (sess_id s) of
        Inl e \<Rightarrow> Inl e
      | Inr env \<Rightarrow> Inr (s\<lparr>store := env\<rparr>))"

definition clear :: "redis \<Rightarrow> session \<Rightarrow> redis \<times> session" where
  "clear mem s = (mem_clear mem (sess_id s), s\<lparr>store := JNull\<rparr>)"

definition save :: "codec \<Rightarrow> redis \<Rightarrow> session \<Rightarrow> redis" where
  "save js mem s = save_store js mem (sess_id s) (store s) (Some (15 * 60))"

section \<open>\<^verbatim>\<open>SessionMiddleware\<close>: \<^verbatim>\<open>src/api/middlewares/session.py\<close>\<close>

text \<open>One entry of \<^verbatim>\<open>skip_session_header\<close>; a missing \<^verbatim>\<open>header_value\<close> reads as \<^verbatim>\<open>None\<close>.\<close>

record skip_rule =
  header_name :: string
  header_value :: "string option"

text \<open>\<^verbatim>\<open>skip_session_header\<close> is \<^verbatim>\<open>None\<close>, one dict, or a list of dicts.\<close>

datatype skip_cfg = NoSkip | SkipOne skip_rule | SkipMany "skip_rule list"

text \<open>
  The middleware's configuration. \<open>ser_encode\<close> and \<open>ser_decode\<close> are the two methods of
  the \<^verbatim>\<open>SignatureSerializer\<close> built from \<open>secret_key\<close> and \<open>max_age\<close> (a library class):
  \<open>ser_decode\<close> gives the decoded dict or the error text. \<open>codec\<close> belongs to the memory
  behind \<^verbatim>\<open>self.memory\<close>, whose contents are passed as a \<^typ>\<open>redis\<close> state.
\<close>

record middleware =
  cookie_path :: string
  skip_session_header :: skip_cfg
  http_only :: bool
  max_age :: int
  secure :: bool
  secret_key :: string
  session_cookie_name :: string
  session_object :: string
  ser_encode :: "(string \<times> string option) list \<Rightarrow> string"
  ser_decode :: "string \<Rightarrow> string + (string \<times> string option) list"
  codec :: codec

record request =
  cookies :: "string \<Rightarrow> string option"
  headers :: "string \<Rightarrow> string option"

text \<open>The \<^verbatim>\<open>SimpleCookie\<close> morsel that \<^verbatim>\<open>create_session_cookie\<close> fills in.\<close>

record cookie =
  cookie_key :: string
  cookie_value :: string
  path_attr :: string
  httponly_attr :: bool
  secure_attr :: bool
  max_age_attr :: "int option"

text \<open>
  What is done to the cookies of a response, in order: the middleware's assignment
  \<^verbatim>\<open>response.headers["Set-Cookie"] = ...\<close>, \<^verbatim>\<open>response.delete_cookie(name)\<close>, and a
  handler's \<^verbatim>\<open>response.set_cookie(key, value)\<close>.
\<close>

datatype header_op =
    SetCookieHeader cookie
  | DeleteCookie string
  | SetCookie string string

record response =
  status_code :: nat
  header_ops :: "header_op list"

text \<open>
  The downstream application behind \<^verbatim>\<open>call_next\<close>. With a session attached to
  \<^verbatim>\<open>request.state\<close> it may change that session object and the store; on the skip path
  no session is attached. \<open>Inl\<close> is an exception leaving \<^verbatim>\<open>call_next\<close>.
\<close>

record app =
  call_next_plain :: "request \<Rightarrow> redis \<Rightarrow> error + (response \<times> redis)"
  call_next :: "request \<Rightarrow> session \<Rightarrow> redis \<Rightarrow> error + (response \<times> session \<times> redis)"

definition create_session_cookie :: "middleware \<Rightarrow> string option \<Rightarrow> cookie" where
  "create_session_cookie mw session_id =
     (let session_id_dict_obj = [(session_cookie_name mw, session_id)];
          signed_session_id = ser_encode mw session_id_dict_obj
      in \<lparr>cookie_key = session_cookie_name mw,
          cookie_value = signed_session_id,
          path_attr = cookie_path mw,
          httponly_attr = http_only mw,
          secure_attr = secure mw,
          max_age_attr = (if max_age mw > 0 then Some (max_age mw) else None)\<rparr>)"

text \<open>The loop of \<^verbatim>\<open>skip_session_header_check\<close> over the configured entries.\<close>

fun skip_match :: "(string \<Rightarrow> string option) \<Rightarrow> skip_rule list \<Rightarrow> bool" where
  "skip_match hs [] = False"
| "skip_match hs (h # rest) =
     (let request_header_value = hs (header_name h)
      in if (header_value h = Some ''*'' \<and> request_header_value \<noteq> None)
            \<or> request_header_value = header_value h
         then True
         else skip_match hs rest)"

definition skip_session_header_check :: "middleware \<Rightarrow> request \<Rightarrow> bool" where
  "skip_session_header_check mw req =
     (case skip_session_header mw of
        NoSkip \<Rightarrow> False
      | SkipOne h \<Rightarrow> skip_match (headers req) [h]
      | SkipMany hs \<Rightarrow> skip_match (headers req) hs)"

text \<open>
  \<^verbatim>\<open>create_session\<close>. The result of \<^verbatim>\<open>str(uuid.uuid4())\<close> is the argument \<open>uuid4\<close>: the
  random identifier drawn for this request.
\<close>

definition create_session :: "string \<Rightarrow> string option \<Rightarrow> error + session" where
  "create_session uuid4 cause =
     (let session_id = uuid4;
          session = new_session (Some session_id)
      in case cause of
           None \<Rightarrow> Inr session
         | Some c \<Rightarrow> setitem session ''__cause__'' (JStr c))"

text \<open>\<^verbatim>\<open>decoded_dict.get(name)\<close>\<close>

definition dict_get :: "(string \<times> string option) list \<Rightarrow> string \<Rightarrow> string option" where
  "dict_get d k = (case map_of d k of None \<Rightarrow> None | Some v \<Rightarrow> v)"

text \<open>
  \<^verbatim>\<open>dispatch\<close>, from reading the cookie to the point before \<^verbatim>\<open>call_next\<close>: the session
  attached to the request and the cookie to issue, if any.
\<close>

definition dispatch_entry :: "middleware \<Rightarrow> string \<Rightarrow> request \<Rightarrow> redis \<Rightarrow> error + (session \<times> cookie option)" where
  "dispatch_entry mw uuid4 req mem =
     (case cookies req (session_cookie_name mw) of
        None \<Rightarrow>
          (case create_session uuid4 (Some ''new'') of
             Inl e \<Rightarrow> Inl e
           | Inr session \<Rightarrow> Inr (session, Some (create_session_cookie mw (sess_id session))))
      | Some signed_session_id \<Rightarrow>
          (case ser_decode mw signed_session_id of
             Inr decoded_dict \<Rightarrow>
               (let session_id = dict_get decoded_dict (session_cookie_name mw);
                    has_session = mem_has mem session_id
                in if \<not> has_session then
                     (case create_session uuid4 (Some ''valid_cookie_but_no_store'') of
                        Inl e \<Rightarrow> Inl e
                      | Inr session \<Rightarrow>
                          Inr (session, Some (create_session_cookie mw (sess_id session))))
                   else
                     (let session = new_session session_id
                      in case load (codec mw) mem session of
                           Inl e \<Rightarrow> Inl e
                         | Inr session \<Rightarrow>
                             (case setitem session ''__cause__'' (JStr ''success'') of
                                Inl e \<Rightarrow> Inl e
                              | Inr session \<Rightarrow> Inr (session, None))))
           | Inl err \<Rightarrow>
               (case create_session uuid4 (Some (''renew after '' @ err)) of
                  Inl e \<Rightarrow> Inl e
                | Inr session \<Rightarrow>
                    Inr (session, Some (create_session_cookie mw (sess_id session))))))"

text \<open>\<^verbatim>\<open>dispatch\<close>, after \<^verbatim>\<open>call_next\<close> has returned: the three \<^verbatim>\<open>if\<close>s in their order.\<close>

definition dispatch_exit :: "middleware \<Rightarrow> session \<Rightarrow> cookie option \<Rightarrow> response \<Rightarrow> redis \<Rightarrow> response \<times> redis" where
  "dispatch_exit mw session cookie resp mem =
     (let mem = (if store session \<noteq> JNull then save (codec mw) mem session else mem);
          resp = (case cookie of
                    None \<Rightarrow> resp
                  | Some c \<Rightarrow>
                      if store session \<noteq> JNull
                      then resp\<lparr>header_ops := header_ops resp @ [SetCookieHeader c]\<rparr>
                      else resp);
          resp = (if store session = JNull
                  then resp\<lparr>header_ops := header_ops resp
                                @ [DeleteCookie (session_cookie_name mw)]\<rparr>
                  else resp)
      in (resp, mem))"

text \<open>\<^verbatim>\<open>dispatch\<close>: an exception anywhere leaves the function at once.\<close>

definition dispatch :: "middleware \<Rightarrow> string \<Rightarrow> request \<Rightarrow> app \<Rightarrow> redis \<Rightarrow> error + (response \<times> redis)" where
  "dispatch mw uuid4 req ap mem =
     (if skip_session_header_check mw req then call_next_plain ap req mem
      else
        (case dispatch_entry mw uuid4 req mem of
           Inl e \<Rightarrow> Inl e
         | Inr (session, cookie) \<Rightarrow>
             (case call_next ap req session mem of
                Inl e \<Rightarrow> Inl e
              | Inr (resp, session', mem') \<Rightarrow>
                  Inr (dispatch_exit mw session' cookie resp mem'))))"

section \<open>Resolving the user: \<^verbatim>\<open>src/api/deps/auth.py\<close> and \<^verbatim>\<open>src/api/routes/auth.py\<close>\<close>

text \<open>
  The two library conversions between a \<^verbatim>\<open>User\<close> and its cached form:
  \<^verbatim>\<open>User.model_validate\<close>, which can raise, and \<^verbatim>\<open>jsonable_encoder(user.model_dump())\<close>.
\<close>

record pydantic =
  model_validate :: "json \<Rightarrow> error + user"
  jsonable_encoder :: "user \<Rightarrow> json"

text \<open>
  The persistence service: \<^verbatim>\<open>UserService.authenticate\<close> by email and password, and the
  unexpired \<^verbatim>\<open>UserSession\<close> rows by token, which \<^verbatim>\<open>UserService.get_by_session_token\<close>
  reads.
\<close>

record db =
  authenticate :: "string \<Rightarrow> string \<Rightarrow> user option"
  user_sessions :: "string option \<Rightarrow> user option"

text \<open>
  \<^verbatim>\<open>get_session_user\<close>. The third component lists the tokens looked up in the persistence
  service during the call.
\<close>

definition get_session_user :: "pydantic \<Rightarrow> session \<Rightarrow> db \<Rightarrow> (error + user) \<times> session \<times> string option list" where
  "get_session_user lib session d =
     (case py_get (store session) ''user'' of
        Inl e \<Rightarrow> (Inl e, session, [])
      | Inr user_dict \<Rightarrow>
          if truthy user_dict then (model_validate lib user_dict, session, [])
          else
            (case user_sessions d (sess_id session) of
               Some u \<Rightarrow>
                 (case setitem session ''user'' (jsonable_encoder lib u) of
                    Inl e \<Rightarrow> (Inl e, session, [sess_id session])
                  | Inr session' \<Rightarrow> (Inr u, session', [sess_id session]))
             | None \<Rightarrow>
                 (Inl (HTTPException 401 ''Not authenticated''), session, [sess_id session])))"

text \<open>
  \<^verbatim>\<open>login\<close>: authenticate, add the \<^verbatim>\<open>UserSession\<close> row for \<^verbatim>\<open>session.id\<close>, cache the user
  with \<^verbatim>\<open>session["user"] = ...\<close>, set the \<^verbatim>\<open>auth\<close> cookie.
\<close>

definition login :: "pydantic \<Rightarrow> string \<Rightarrow> string \<Rightarrow> session \<Rightarrow> db \<Rightarrow> error + (user \<times> session \<times> db \<times> header_op list)" where
  "login lib mail password session d =
     (case authenticate d mail password of
        None \<Rightarrow> Inl (HTTPException 401 ''Invalid email or password'')
      | Some u \<Rightarrow>
          (let d' = d\<lparr>user_sessions := (user_sessions d)(sess_id session \<mapsto> u)\<rparr>
           in case setitem session ''user'' (jsonable_encoder lib u) of
                Inl e \<Rightarrow> Inl e
              | Inr session' \<Rightarrow> Inr (u, session', d', [SetCookie ''auth'' ''true''])))"

section \<open>Concrete inputs\<close>

text \<open>
  A subject used in the concrete checks: not a superuser, no roles, one direct permission
  \<^verbatim>\<open>posts:write\<close>.
\<close>

definition writer :: user where
  "writer =
     \<lparr>user_id = Some 1, email = ''w@example.org'', first_name = ''W'', last_name = ''R'',
      email_verified = True, hashed_password = ''x'', is_active = True,
      is_superuser = False, roles = [],
      permissions = [\<lparr>perm_id = Some 7, perm_name = ''posts:write'',
                       perm_title = ''Write posts'', perm_description = None\<rparr>]\<rparr>"

text \<open>A superuser with no direct permission and no role.\<close>

definition root_user :: user where
  "root_user =
     \<lparr>user_id = Some 2, email = ''r@example.org'', first_name = ''R'', last_name = ''T'',
      email_verified = True, hashed_password = ''x'', is_active = True,
      is_superuser = True, roles = [], permissions = []\<rparr>"

text \<open>
  A stand-in for the \<^verbatim>\<open>SignatureSerializer\<close> in the concrete checks: the cookie value is
  \<^verbatim>\<open>sid=\<close> followed by the identifier; any other value is rejected.
\<close>

definition plain_encode :: "(string \<times> string option) list \<Rightarrow> string" where
  "plain_encode d = (case d of [(k, Some v)] \<Rightarrow> k @ ''='' @ v | _ \<Rightarrow> [])"

definition plain_decode :: "string \<Rightarrow> string + (string \<times> string option) list" where
  "plain_decode t =
     (if take 4 t = ''sid='' then Inr [(''sid'', Some (drop 4 t))] else Inl ''BadSignature'')"

text \<open>
  The cached form of \<open>writer\<close>, the envelope of a session after a login, and a text
  of 200000 opening brackets, on which \<^verbatim>\<open>json.loads\<close> raises \<^verbatim>\<open>RecursionError\<close>. The
  \<^verbatim>\<open>json\<close> module is given on these documents; any other text used below is not JSON.
\<close>

definition writer_json :: json where
  "writer_json = JDict [(''email'', JStr ''w@example.org'')]"

definition login_env :: json where
  "login_env = JDict [(''store'', JDict [(''__cause__'', JStr ''new''), (''user'', writer_json)])]"

definition deep_doc :: string where
  "deep_doc = replicate 200000 (CHR ''['')"

definition demo_codec :: codec where
  "demo_codec =
     \<lparr>json_loads = (\<lambda>d. if d = ''envelope-1'' then Inr login_env
                         else if d = deep_doc then Inl RecursionError
                         else Inl JSONDecodeError),
      json_dumps = (\<lambda>j. if j = login_env then ''envelope-1'' else ''other'')\<rparr>"

definition demo_mw :: middleware where
  "demo_mw =
     \<lparr>cookie_path = ''/'', skip_session_header = NoSkip, http_only = True, max_age = 0,
      secure = False, secret_key = ''k'', session_cookie_name = ''sid'',
      session_object = ''session'', ser_encode = plain_encode, ser_decode = plain_decode,
      codec = demo_codec\<rparr>"

definition demo_lib :: pydantic where
  "demo_lib =
     \<lparr>model_validate = (\<lambda>j. if j = writer_json then Inr writer else Inl ValueError),
      jsonable_encoder = (\<lambda>u. JDict [(''email'', JStr (email u))])\<rparr>"

text \<open>
  A persistence service that knows \<open>writer\<close> and holds no session row.
\<close>

definition demo_db :: db where
  "demo_db =
     \<lparr>authenticate = (\<lambda>m p. if m = ''w@example.org'' \<and> p = ''pw'' then Some writer else None),
      user_sessions = Map.empty\<rparr>"

definition no_cookie_request :: request where
  "no_cookie_request = \<lparr>cookies = Map.empty, headers = Map.empty\<rparr>"

definition sid_request :: "string \<Rightarrow> request" where
  "sid_request t = \<lparr>cookies = [''sid'' \<mapsto> t], headers = Map.empty\<rparr>"

text \<open>
  A downstream application whose handler clears the session, as \<^verbatim>\<open>logout\<close> does.
\<close>

definition logout_app :: app where
  "logout_app =
     \<lparr>call_next_plain = (\<lambda>req mem. Inr (\<lparr>status_code = 200, header_ops = []\<rparr>, mem)),
      call_next = (\<lambda>req s mem.
        case clear mem s of
          (mem', s') \<Rightarrow>
            Inr (\<lparr>status_code = 200, header_ops = [SetCookie ''auth'' ''false'']\<rparr>, s', mem'))\<rparr>"

text \<open>
  Sessions met in the concrete checks: the one created for a request without cookie
  (identifier \<^verbatim>\<open>u-1\<close>), the same after a login, the same as loaded by the next request,
  and the one created for a verified cookie without store entry (identifier \<^verbatim>\<open>u-2\<close>).
\<close>

definition first_session :: session where
  "first_session =
     \<lparr>sess_id = Some ''u-1'', store = JDict [(''store'', JDict [(''__cause__'', JStr ''new'')])]\<rparr>"

definition logged_in_session :: session where
  "logged_in_session = \<lparr>sess_id = Some ''u-1'', store = login_env\<rparr>"

definition second_session :: session where
  "second_session =
     \<lparr>sess_id = Some ''u-1'',
      store = JDict [(''store'', JDict [(''__cause__'', JStr ''success''), (''user'', writer_json)])]\<rparr>"

definition stale_session :: session where
  "stale_session =
     \<lparr>sess_id = Some ''u-2'',
      store = JDict [(''store'', JDict [(''__cause__'', JStr ''valid_cookie_but_no_store'')])]\<rparr>"

text \<open>
  Three stores whose entry for \<^verbatim>\<open>u-1\<close> is not a JSON document: text that is not JSON,
  the single byte 255 (not UTF-8), and the deeply nested text.
\<close>

definition corrupt_mem :: redis where
  "corrupt_mem = [''session:u-1'' \<mapsto> (''garbage'', Some 900)]"

definition bad_utf8_mem :: redis where
  "bad_utf8_mem = [''session:u-1'' \<mapsto> ([CHR 0xFF], Some 900)]"

definition deep_mem :: redis where
  "deep_mem = [''session:u-1'' \<mapsto> (deep_doc, Some 900)]"

section \<open>Properties of the authorization model\<close>

lemma role_has_permission_name:
  "role_has_permission r (PName P) = (P \<in> perm_name ` set (role_permissions r))"
  by (auto simp: role_has_permission_def list_ex_iff)

lemma has_permission_list: "has_permission u (PList ps) = False"
  by (auto simp: has_permission_def Let_def list_ex_iff role_has_permission_def)

text \<open>
  C6. For a permission name \<open>P\<close>, \<^verbatim>\<open>User.has_permission\<close> answers true exactly when \<open>P\<close> is
  the name of a direct permission of the subject or of a permission of one of its roles;
  with no direct permission and no role the answer is false, for any argument, and the
  function (a total boolean function here) raises nothing.
\<close>

theorem has_permission_union:
  "has_permission u (PName P) =
     (P \<in> perm_name ` set (permissions u) \<or>
      (\<exists>r \<in> set (roles u). P \<in> perm_name ` set (role_permissions r)))
   \<and> (permissions u = [] \<and> roles u = [] \<longrightarrow> has_permission u p = False)"
  by (auto simp: has_permission_def Let_def list_ex_iff role_has_permission_name)

theorem has_permission_union_witness:
  "has_permission writer (PName ''posts:write'')
   \<and> \<not> has_permission writer (PName ''posts:delete'')
   \<and> \<not> has_permission root_user (PName ''posts:write'')"
  using has_permission_union [of writer "''posts:write''" "PName ''posts:write''"]
    has_permission_union [of writer "''posts:delete''" "PName ''posts:write''"]
    has_permission_union [of root_user "''posts:write''" "PName ''posts:write''"]
  by (simp add: writer_def root_user_def)

lemma can_each_superuser: "is_superuser u \<Longrightarrow> can_each u ps = Inr ()"
  by (induction ps) (simp_all add: can_def)

text \<open>With a single name the dependency is \<^verbatim>\<open>User.can\<close> on that name.\<close>

lemma with_access_to_name: "with_access_to (PName p) u = can u (PName p)"
  by (simp add: with_access_to_def split: sum.splits)

text \<open>
  With a list, the closing \<^verbatim>\<open>user.can(permission)\<close> tests the list itself; no permission
  is named by a list, so a subject that is not a superuser never passes.
\<close>

lemma with_access_to_list_nonsuperuser:
  "\<not> is_superuser u \<Longrightarrow> with_access_to (PList ps) u \<noteq> Inr ()"
  by (simp add: with_access_to_def can_def has_permission_list split: sum.splits)

text \<open>
  C1. The list form of the requirement should pass exactly when every listed permission
  is held. Evaluated on \<open>writer\<close>, who is not a superuser and holds \<^verbatim>\<open>posts:write\<close>, the
  check of the list \<^verbatim>\<open>["posts:write"]\<close> raises \<^verbatim>\<open>RequiresPermission\<close> for the list.
\<close>

theorem with_access_to_list_rejects_holder:
  "\<not> is_superuser writer
   \<and> has_permission writer (PName ''posts:write'')
   \<and> with_access_to (PList [''posts:write'']) writer
       = Inl (RequiresPermission (PList [''posts:write'']))"
  by (simp add: with_access_to_def can_def has_permission_def writer_def)

text \<open>
  C2, as stated, fails: \<^verbatim>\<open>User.has_permission\<close> does not read the superuser flag, so a
  superuser without permissions and roles gets false.
\<close>

theorem superuser_has_permission_counterexample:
  "is_superuser root_user \<and> \<not> has_permission root_user (PName ''posts:write'')"
  by (simp add: has_permission_def root_user_def)

text \<open>
  C2, amended. The bypass is in the raising check: for a subject whose superuser flag is
  set, \<^verbatim>\<open>User.can\<close> returns without raising for every argument, and so does the
  dependency built by \<^verbatim>\<open>with_access_to\<close>; \<^verbatim>\<open>User.has_permission\<close> does not read the flag
  and answers as it does for the same subject without it.
\<close>

theorem superuser_can_everything:
  "is_superuser u \<Longrightarrow>
     can u p = Inr () \<and> with_access_to p u = Inr ()
     \<and> has_permission u p = has_permission (u\<lparr>is_superuser := False\<rparr>) p"
  by (cases p) (simp_all add: can_def with_access_to_def can_each_superuser has_permission_def)

theorem superuser_can_everything_witness:
  "is_superuser root_user
   \<and> can root_user (PName ''posts:write'') = Inr ()
   \<and> with_access_to (PName ''posts:write'') root_user = Inr ()"
proof -
  have su: "is_superuser root_user" by (simp add: root_user_def)
  from superuser_can_everything [OF su, of "PName ''posts:write''"] su show ?thesis by simp
qed

section \<open>Properties of signed tokens\<close>

lemma b64_char_in: "b64_char n \<in> set b64_alphabet"
  unfolding b64_char_def by (rule nth_mem) (simp add: b64_alphabet_def)

lemma dot_not_b64: "CHR ''.'' \<notin> set b64_alphabet"
  by (simp add: b64_alphabet_def)

lemma b64_char_not_dot: "b64_char n \<noteq> CHR ''.''"
  using b64_char_in [of n] dot_not_b64 by metis

lemma b64encode_no_dot: "CHR ''.'' \<notin> set (b64encode bs)"
  by (induction bs rule: b64encode.induct) (auto simp: Let_def b64_char_not_dot [symmetric])

lemma split_on_no_sep: "c \<notin> set v \<Longrightarrow> split_on c v = [v]"
  by (induction v) auto

lemma split_on_append: "c \<notin> set v \<Longrightarrow> split_on c (v @ c # rest) = v # split_on c rest"
  by (induction v) auto

text \<open>
  C9. For a value without the separator \<^verbatim>\<open>.\<close>, whatever the secret and whatever the
  digest function, the signed token splits into exactly the value and its signature, so
  the unpacking raises nothing and recovers the value, and \<^verbatim>\<open>verify_signed_token\<close>
  returns \<^verbatim>\<open>True\<close>.
\<close>

theorem sign_verify_roundtrip:
  "CHR ''.'' \<notin> set v \<Longrightarrow>
     split_on (CHR ''.'') (create_signed_token h v secret) = [v, create_hmac h secret v]
     \<and> verify_signed_token h (create_signed_token h v secret) secret = Inr True"
  by (simp add: verify_signed_token_def create_signed_token_def Let_def split_on_append
      split_on_no_sep create_hmac_def b64encode_no_dot)

theorem sign_verify_roundtrip_witness:
  "CHR ''.'' \<notin> set ''tok3n''
   \<and> verify_signed_token (\<lambda>k m. [1, 2, 255, 16])
        (create_signed_token (\<lambda>k m. [1, 2, 255, 16]) ''tok3n'' ''s3cret'') ''s3cret''
       = Inr True"
proof -
  have h: "CHR ''.'' \<notin> set ''tok3n''" by simp
  from sign_verify_roundtrip [OF h, of "\<lambda>k m. [1, 2, 255, 16]" "''s3cret''"] h
  show ?thesis by simp
qed

section \<open>Properties of the session context\<close>

lemma create_session_result:
  "create_session u cause =
     Inr \<lparr>sess_id = Some u,
          store = JDict [(''store'',
            JDict (case cause of None \<Rightarrow> [] | Some c \<Rightarrow> [(''__cause__'', JStr c)]))]\<rparr>"
  by (simp add: create_session_def new_session_def setitem_def split: option.splits)

lemma setitem_no_store: "store s = JNull \<Longrightarrow> setitem s k v = Inl TypeError"
  by (simp add: setitem_def)

lemma delitem_no_store: "store s = JNull \<Longrightarrow> delitem s k = Inl TypeError"
  by (simp add: delitem_def)

lemma clear_no_store: "store (snd (clear mem s)) = JNull"
  by (simp add: clear_def)

lemma load_absent_no_store:
  "\<not> mem_has mem (sess_id s) \<Longrightarrow> load js mem s = Inr (s\<lparr>store := JNull\<rparr>)"
  by (auto simp: load_def get_store_def redis_get_def mem_has_def split: option.splits)

text \<open>
  C8. In the "no store" state the envelope is \<^verbatim>\<open>None\<close>; \<^verbatim>\<open>clear\<close> and a \<^verbatim>\<open>load\<close> that
  finds no entry both lead there. Every set and every delete then raises \<^verbatim>\<open>TypeError\<close>
  (the subscript of \<^verbatim>\<open>None\<close>): the operation fails and never returns a session.
\<close>

theorem no_store_write_fails:
  "(store s = JNull \<longrightarrow> setitem s k v = Inl TypeError \<and> delitem s k = Inl TypeError)
   \<and> setitem (snd (clear mem s0)) k v = Inl TypeError
   \<and> delitem (snd (clear mem s0)) k = Inl TypeError
   \<and> (\<not> mem_has mem (sess_id s0) \<longrightarrow>
        load js mem s0 = Inr (s0\<lparr>store := JNull\<rparr>)
        \<and> setitem (s0\<lparr>store := JNull\<rparr>) k v = Inl TypeError
        \<and> delitem (s0\<lparr>store := JNull\<rparr>) k = Inl TypeError)"
  by (simp add: setitem_no_store delitem_no_store clear_no_store load_absent_no_store)

theorem no_store_write_fails_witness:
  "store (snd (clear Map.empty first_session)) = JNull
   \<and> setitem (snd (clear Map.empty first_session)) ''user'' (JStr ''x'') = Inl TypeError
   \<and> delitem (snd (clear Map.empty first_session)) ''user'' = Inl TypeError
   \<and> \<not> mem_has Map.empty (sess_id first_session)
   \<and> load demo_codec Map.empty first_session = Inr (first_session\<lparr>store := JNull\<rparr>)
   \<and> setitem (first_session\<lparr>store := JNull\<rparr>) ''user'' (JStr ''x'') = Inl TypeError
   \<and> delitem (first_session\<lparr>store := JNull\<rparr>) ''user'' = Inl TypeError"
proof -
  have a: "store (snd (clear Map.empty first_session)) = JNull" by (simp add: clear_def)
  have b: "\<not> mem_has Map.empty (sess_id first_session)" by (simp add: mem_has_def)
  from no_store_write_fails [of "snd (clear Map.empty first_session)" "''user''" "JStr ''x''"
      Map.empty first_session demo_codec] a b
  show ?thesis by simp
qed

lemma setitem_then_contains:
  assumes "setitem s k v = Inr s'"
  shows "contains s' k = Inr True"
proof -
  from assms obtain d b where d: "store s = JDict d" and b: "map_of d ''store'' = Some (JDict b)"
    and s': "s' = s\<lparr>store := JDict (AList.update ''store'' (JDict (AList.update k v b)) d)\<rparr>"
    apply (cases "store s"; simp add: setitem_def split: option.splits sum.splits)
    subgoal for d
      apply (cases "the (map_of d ''store'')"; auto)
      done
    done
  show ?thesis
    by (simp add: s' contains_def update_conv')
qed

section \<open>Properties of the middleware\<close>

lemma entry_no_cookie:
  "dispatch_entry demo_mw ''u-1'' no_cookie_request Map.empty
     = Inr (first_session, Some (create_session_cookie demo_mw (Some ''u-1'')))"
  by (simp add: dispatch_entry_def create_session_result demo_mw_def no_cookie_request_def
      first_session_def)

lemma dispatch_exit_no_store:
  "store s = JNull \<Longrightarrow>
     dispatch_exit mw s c resp mem =
       (resp\<lparr>header_ops := header_ops resp @ [DeleteCookie (session_cookie_name mw)]\<rparr>, mem)"
  by (simp add: dispatch_exit_def Let_def split: option.splits)

text \<open>
  C5. When the session handed back by the handler has no store, \<^verbatim>\<open>dispatch\<close> returns the
  handler's response with one more instruction, the deletion of the session cookie, and
  the store as the handler left it: nothing is saved and no \<^verbatim>\<open>Set-Cookie\<close> with a signed
  value is added, whether or not a cookie was prepared at request entry.
\<close>

theorem cleared_session_deletes_cookie:
  assumes "\<not> skip_session_header_check mw req"
    and "dispatch_entry mw uuid4 req mem = Inr (s, c)"
    and "call_next ap req s mem = Inr (resp, s', mem')"
    and "store s' = JNull"
  shows "dispatch mw uuid4 req ap mem =
           Inr (resp\<lparr>header_ops := header_ops resp @ [DeleteCookie (session_cookie_name mw)]\<rparr>,
                mem')"
  using assms by (simp add: dispatch_def dispatch_exit_no_store)

theorem cleared_session_deletes_cookie_witness:
  "\<not> skip_session_header_check demo_mw no_cookie_request
   \<and> dispatch_entry demo_mw ''u-1'' no_cookie_request Map.empty
       = Inr (first_session, Some (create_session_cookie demo_mw (Some ''u-1'')))
   \<and> call_next logout_app no_cookie_request first_session Map.empty
       = Inr (\<lparr>status_code = 200, header_ops = [SetCookie ''auth'' ''false'']\<rparr>,
              first_session\<lparr>store := JNull\<rparr>, mem_clear Map.empty (Some ''u-1''))
   \<and> dispatch demo_mw ''u-1'' no_cookie_request logout_app Map.empty
       = Inr (\<lparr>status_code = 200,
               header_ops = [SetCookie ''auth'' ''false'', DeleteCookie ''sid'']\<rparr>,
              mem_clear Map.empty (Some ''u-1''))"
proof -
  have a: "\<not> skip_session_header_check demo_mw no_cookie_request"
    by (simp add: skip_session_header_check_def demo_mw_def)
  have b: "dispatch_entry demo_mw ''u-1'' no_cookie_request Map.empty
       = Inr (first_session, Some (create_session_cookie demo_mw (Some ''u-1'')))"
    by (rule entry_no_cookie)
  have c: "call_next logout_app no_cookie_request first_session Map.empty
       = Inr (\<lparr>status_code = 200, header_ops = [SetCookie ''auth'' ''false'']\<rparr>,
              first_session\<lparr>store := JNull\<rparr>, mem_clear Map.empty (Some ''u-1''))"
    by (simp add: logout_app_def clear_def first_session_def)
  have d: "store (first_session\<lparr>store := JNull\<rparr>) = JNull" by simp
  have e: "session_cookie_name demo_mw = ''sid''" by (simp add: demo_mw_def)
  from cleared_session_deletes_cookie [OF a b c d] a b c e show ?thesis by simp
qed




text \<open>
  C7, as stated, fails: for a request without cookie the attached session answers true
  to the membership test for \<^verbatim>\<open>__cause__\<close> before any handler has run.
\<close>

theorem no_cookie_session_contains_cause:
  "dispatch_entry demo_mw ''u-1'' no_cookie_request Map.empty
     = Inr (first_session, Some (create_session_cookie demo_mw (Some ''u-1'')))
   \<and> contains first_session ''__cause__'' = Inr True"
  by (simp add: entry_no_cookie) (simp add: contains_def first_session_def)

text \<open>
  C7, amended. Every session the middleware attaches contains the key \<^verbatim>\<open>__cause__\<close> in
  its bucket; when the session is a new one (a cookie is prepared), that is the only key:
  the membership test is false for every other key.
\<close>

theorem attached_session_has_cause:
  assumes "dispatch_entry mw uuid4 req mem = Inr (s, c)"
  shows "contains s ''__cause__'' = Inr True
         \<and> (c \<noteq> None \<longrightarrow> (\<forall>k. k \<noteq> ''__cause__'' \<longrightarrow> contains s k = Inr False))"
  using assms
  by (auto simp: dispatch_entry_def create_session_result Let_def contains_def
      dest: setitem_then_contains split: option.splits sum.splits if_splits)

theorem attached_session_has_cause_witness:
  "dispatch_entry demo_mw ''u-1'' no_cookie_request Map.empty
     = Inr (first_session, Some (create_session_cookie demo_mw (Some ''u-1'')))
   \<and> contains first_session ''__cause__'' = Inr True
   \<and> contains first_session ''user'' = Inr False"
proof -
  have b: "dispatch_entry demo_mw ''u-1'' no_cookie_request Map.empty
       = Inr (first_session, Some (create_session_cookie demo_mw (Some ''u-1'')))"
    by (rule entry_no_cookie)
  from attached_session_has_cause [OF b] b show ?thesis by simp
qed

lemma valid_utf8_ascii: "(of_char c :: nat) < 128 \<Longrightarrow> valid_utf8 (replicate n c)"
  by (induction n) simp_all

lemma valid_utf8_deep_doc: "valid_utf8 deep_doc"
  unfolding deep_doc_def by (rule valid_utf8_ascii) simp

lemma deep_doc_not_envelope: "deep_doc \<noteq> ''envelope-1''"
proof
  assume "deep_doc = ''envelope-1''"
  then have "length deep_doc = length ''envelope-1''" by (rule arg_cong)
  then show False by (simp add: deep_doc_def)
qed

lemma json_loads_deep_doc: "json_loads (codec demo_mw) deep_doc = Inl RecursionError"
  by (simp add: demo_mw_def demo_codec_def deep_doc_not_envelope)

text \<open>
  C10, as stated, fails: stored bytes that are no JSON document do not always make
  \<^verbatim>\<open>get_store\<close> return \<^verbatim>\<open>None\<close>. For the single byte 255 the client's read raises
  \<^verbatim>\<open>UnicodeDecodeError\<close>, which leaves \<^verbatim>\<open>get_store\<close> and \<^verbatim>\<open>dispatch\<close>; no \<^verbatim>\<open>TypeError\<close>
  is reached.
\<close>

theorem undecodable_entry_unicode_error:
  "cookies (sid_request ''sid=u-1'') (session_cookie_name demo_mw) = Some ''sid=u-1''
   \<and> ser_decode demo_mw ''sid=u-1'' = Inr [(''sid'', Some ''u-1'')]
   \<and> mem_has bad_utf8_mem (Some ''u-1'')
   \<and> get_store (codec demo_mw) bad_utf8_mem (Some ''u-1'') = Inl UnicodeDecodeError
   \<and> dispatch demo_mw ''u-2'' (sid_request ''sid=u-1'') logout_app bad_utf8_mem
       = Inl UnicodeDecodeError"
  by (simp add: sid_request_def demo_mw_def plain_decode_def mem_has_def make_key_def
      bad_utf8_mem_def get_store_def redis_get_def dispatch_def dispatch_entry_def
      skip_session_header_check_def dict_get_def load_def new_session_def)

text \<open>
  C10, amended. For a cookie that verifies and a store that holds bytes under the session
  key: if the bytes are UTF-8 and \<^verbatim>\<open>json.loads\<close> raises \<^verbatim>\<open>JSONDecodeError\<close> (or
  \<^verbatim>\<open>AttributeError\<close>) on them, \<^verbatim>\<open>get_store\<close> returns \<^verbatim>\<open>None\<close> and \<^verbatim>\<open>dispatch\<close> ends with
  \<^verbatim>\<open>TypeError\<close> at \<^verbatim>\<open>session["__cause__"] = "success"\<close>, before the handler is called; if
  the bytes are not UTF-8, \<^verbatim>\<open>get_store\<close> and \<^verbatim>\<open>dispatch\<close> end with \<^verbatim>\<open>UnicodeDecodeError\<close>;
  any other exception of \<^verbatim>\<open>json.loads\<close> is raised by both as it is. In none of these
  cases is a new session created: a new session with a new cookie is produced exactly
  when the existence check fails.
\<close>

theorem corrupt_entry_type_error:
  assumes "cookies req (session_cookie_name mw) = Some tok"
    and "ser_decode mw tok = Inr d"
    and "mem (make_key (dict_get d (session_cookie_name mw))) = Some (data, ttl)"
  shows "(valid_utf8 data
            \<and> (json_loads (codec mw) data = Inl JSONDecodeError
                 \<or> json_loads (codec mw) data = Inl AttributeError) \<longrightarrow>
          get_store (codec mw) mem (dict_get d (session_cookie_name mw)) = Inr JNull
          \<and> dispatch_entry mw uuid4 req mem = Inl TypeError
          \<and> (\<not> skip_session_header_check mw req \<longrightarrow> dispatch mw uuid4 req ap mem = Inl TypeError))
         \<and> (\<not> valid_utf8 data \<longrightarrow>
          get_store (codec mw) mem (dict_get d (session_cookie_name mw)) = Inl UnicodeDecodeError
          \<and> dispatch_entry mw uuid4 req mem = Inl UnicodeDecodeError
          \<and> (\<not> skip_session_header_check mw req \<longrightarrow>
               dispatch mw uuid4 req ap mem = Inl UnicodeDecodeError))
         \<and> (valid_utf8 data \<and> json_loads (codec mw) data = Inl e
            \<and> e \<noteq> JSONDecodeError \<and> e \<noteq> AttributeError \<longrightarrow>
          get_store (codec mw) mem (dict_get d (session_cookie_name mw)) = Inl e
          \<and> dispatch_entry mw uuid4 req mem = Inl e
          \<and> (\<not> skip_session_header_check mw req \<longrightarrow> dispatch mw uuid4 req ap mem = Inl e))
         \<and> (\<forall>m. (\<exists>s c. dispatch_entry mw uuid4 req m = Inr (s, Some c))
              = (\<not> mem_has m (dict_get d (session_cookie_name mw))))"
proof -
  have fallback: "(\<exists>s c. dispatch_entry mw uuid4 req m = Inr (s, Some c))
      = (\<not> mem_has m (dict_get d (session_cookie_name mw)))" for m
    using assms(1,2)
    by (auto simp: dispatch_entry_def create_session_result Let_def split: sum.splits)
  have rest: "mem_has mem (dict_get d (session_cookie_name mw))"
    using assms(3) by (simp add: mem_has_def)
  show ?thesis
    using assms rest fallback
    by (auto simp: dispatch_def dispatch_entry_def Let_def load_def get_store_def
        redis_get_def new_session_def setitem_def)
qed

theorem corrupt_entry_type_error_witness:
  "cookies (sid_request ''sid=u-1'') (session_cookie_name demo_mw) = Some ''sid=u-1''
   \<and> ser_decode demo_mw ''sid=u-1'' = Inr [(''sid'', Some ''u-1'')]
   \<and> \<not> skip_session_header_check demo_mw (sid_request ''sid=u-1'')
   \<and> corrupt_mem (make_key (Some ''u-1'')) = Some (''garbage'', Some 900)
   \<and> valid_utf8 ''garbage''
   \<and> json_loads (codec demo_mw) ''garbage'' = Inl JSONDecodeError
   \<and> get_store (codec demo_mw) corrupt_mem (Some ''u-1'') = Inr JNull
   \<and> dispatch demo_mw ''u-2'' (sid_request ''sid=u-1'') logout_app corrupt_mem = Inl TypeError
   \<and> bad_utf8_mem (make_key (Some ''u-1'')) = Some ([CHR 0xFF], Some 900)
   \<and> \<not> valid_utf8 [CHR 0xFF]
   \<and> dispatch demo_mw ''u-2'' (sid_request ''sid=u-1'') logout_app bad_utf8_mem
       = Inl UnicodeDecodeError
   \<and> deep_mem (make_key (Some ''u-1'')) = Some (deep_doc, Some 900)
   \<and> valid_utf8 deep_doc
   \<and> json_loads (codec demo_mw) deep_doc = Inl RecursionError
   \<and> dispatch demo_mw ''u-2'' (sid_request ''sid=u-1'') logout_app deep_mem
       = Inl RecursionError
   \<and> \<not> mem_has Map.empty (Some ''u-1'')
   \<and> dispatch_entry demo_mw ''u-2'' (sid_request ''sid=u-1'') Map.empty
       = Inr (stale_session, Some (create_session_cookie demo_mw (Some ''u-2'')))"
proof -
  have a: "cookies (sid_request ''sid=u-1'') (session_cookie_name demo_mw) = Some ''sid=u-1''"
    by (simp add: sid_request_def demo_mw_def)
  have b: "ser_decode demo_mw ''sid=u-1'' = Inr [(''sid'', Some ''u-1'')]"
    by (simp add: demo_mw_def plain_decode_def)
  have f: "dict_get [(''sid'', Some ''u-1'')] (session_cookie_name demo_mw) = Some ''u-1''"
    by (simp add: dict_get_def demo_mw_def)
  have e: "\<not> skip_session_header_check demo_mw (sid_request ''sid=u-1'')"
    by (simp add: skip_session_header_check_def demo_mw_def)
  have c1: "corrupt_mem (make_key (Some ''u-1'')) = Some (''garbage'', Some 900)"
    by (simp add: corrupt_mem_def make_key_def)
  have c2: "bad_utf8_mem (make_key (Some ''u-1'')) = Some ([CHR 0xFF], Some 900)"
    by (simp add: bad_utf8_mem_def make_key_def)
  have c3: "deep_mem (make_key (Some ''u-1'')) = Some (deep_doc, Some 900)"
    by (simp add: deep_mem_def make_key_def)
  have v1: "valid_utf8 ''garbage''" by simp
  have v2: "\<not> valid_utf8 [CHR 0xFF]" by simp
  have j1: "json_loads (codec demo_mw) ''garbage'' = Inl JSONDecodeError"
  proof -
    have "''garbage'' \<noteq> deep_doc"
    proof
      assume "''garbage'' = deep_doc"
      then have "length ''garbage'' = length deep_doc" by (rule arg_cong)
      then show False by (simp add: deep_doc_def)
    qed
    then show ?thesis by (simp add: demo_mw_def demo_codec_def)
  qed
  have h: "\<not> mem_has Map.empty (Some ''u-1'')" by (simp add: mem_has_def)
  have st: "dispatch_entry demo_mw ''u-2'' (sid_request ''sid=u-1'') Map.empty
       = Inr (stale_session, Some (create_session_cookie demo_mw (Some ''u-2'')))"
    by (simp add: dispatch_entry_def create_session_result demo_mw_def sid_request_def
        plain_decode_def dict_get_def mem_has_def stale_session_def)
  note t1 = corrupt_entry_type_error [where mem = corrupt_mem and data = "''garbage''" and ttl = "Some 900"
      and e = RecursionError and ?uuid4.0 = "''u-2''" and ap = logout_app, OF a b,
      unfolded f, OF c1]
  note t2 = corrupt_entry_type_error [where mem = bad_utf8_mem and data = "[CHR 0xFF]" and ttl = "Some 900"
      and e = RecursionError and ?uuid4.0 = "''u-2''" and ap = logout_app, OF a b,
      unfolded f, OF c2]
  note t3 = corrupt_entry_type_error [where mem = deep_mem and data = deep_doc and ttl = "Some 900"
      and e = RecursionError and ?uuid4.0 = "''u-2''" and ap = logout_app, OF a b,
      unfolded f, OF c3]
  from t1 v1 j1 e have r1: "get_store (codec demo_mw) corrupt_mem (Some ''u-1'') = Inr JNull"
    and r1': "dispatch demo_mw ''u-2'' (sid_request ''sid=u-1'') logout_app corrupt_mem = Inl TypeError"
    by simp_all
  from t2 v2 e have r2: "dispatch demo_mw ''u-2'' (sid_request ''sid=u-1'') logout_app bad_utf8_mem
       = Inl UnicodeDecodeError"
    by simp
  from t3 valid_utf8_deep_doc json_loads_deep_doc e
  have r3: "dispatch demo_mw ''u-2'' (sid_request ''sid=u-1'') logout_app deep_mem
       = Inl RecursionError"
    by simp
  from a b e c1 v1 j1 r1 r1' c2 v2 r2 c3 valid_utf8_deep_doc json_loads_deep_doc r3 h st
  show ?thesis by blast
qed

section \<open>Properties of the user lookup\<close>

lemma login_first:
  "login demo_lib ''w@example.org'' ''pw'' first_session demo_db
     = Inr (writer, logged_in_session,
            demo_db\<lparr>user_sessions := [Some ''u-1'' \<mapsto> writer]\<rparr>,
            [SetCookie ''auth'' ''true''])"
  by (simp add: login_def demo_lib_def demo_db_def first_session_def logged_in_session_def
      login_env_def writer_json_def setitem_def writer_def)

lemma entry_second:
  "dispatch_entry demo_mw ''u-2'' (sid_request ''sid=u-1'')
      (save demo_codec Map.empty logged_in_session)
     = Inr (second_session, None)"
  by (simp add: dispatch_entry_def demo_mw_def sid_request_def plain_decode_def dict_get_def
      mem_has_def make_key_def save_def save_store_def logged_in_session_def demo_codec_def
      load_def get_store_def redis_get_def new_session_def setitem_def login_env_def
      second_session_def)

text \<open>
  \<^verbatim>\<open>get_session_user\<close> reads \<^verbatim>\<open>session.store.get("user")\<close>, the envelope, while the cache
  is written by \<^verbatim>\<open>session["user"] = ...\<close> into the bucket under \<^verbatim>\<open>store\<close>. For an envelope
  without a key \<^verbatim>\<open>user\<close> of its own the persistence service is asked.
\<close>

lemma get_session_user_queries_db:
  "store s = JDict d \<Longrightarrow> map_of d ''user'' = None \<Longrightarrow>
     snd (snd (get_session_user lib s dbs)) = [sess_id s]"
  by (simp add: get_session_user_def split: option.splits sum.splits)

text \<open>
  C3. The claim is that after a login the next request with the same cookie is served
  from the session cache without a lookup in the persistence service. Evaluated: a
  request without cookie creates session \<^verbatim>\<open>u-1\<close>; \<^verbatim>\<open>login\<close> caches the user in its
  bucket; the envelope is saved; the next request with the cookie loads it, and the bucket
  holds the cached user. \<^verbatim>\<open>get_session_user\<close> still looks the token up in the
  persistence service, and without a session row there it raises 401.
\<close>

theorem cached_user_still_queries_db:
  "dispatch_entry demo_mw ''u-1'' no_cookie_request Map.empty
     = Inr (first_session, Some (create_session_cookie demo_mw (Some ''u-1'')))
   \<and> login demo_lib ''w@example.org'' ''pw'' first_session demo_db
     = Inr (writer, logged_in_session,
            demo_db\<lparr>user_sessions := [Some ''u-1'' \<mapsto> writer]\<rparr>,
            [SetCookie ''auth'' ''true''])
   \<and> dispatch_entry demo_mw ''u-2'' (sid_request ''sid=u-1'')
        (save demo_codec Map.empty logged_in_session)
     = Inr (second_session, None)
   \<and> getitem second_session ''user'' = Inr writer_json
   \<and> get_session_user demo_lib second_session
        (demo_db\<lparr>user_sessions := [Some ''u-1'' \<mapsto> writer]\<rparr>)
     = (Inr writer, second_session, [Some ''u-1''])
   \<and> get_session_user demo_lib second_session demo_db
     = (Inl (HTTPException 401 ''Not authenticated''), second_session, [Some ''u-1''])"
  apply (intro conjI)
  apply (rule entry_no_cookie)
  apply (rule login_first)
  apply (rule entry_second)
  apply (simp add: getitem_def second_session_def)
  apply (simp add: get_session_user_def second_session_def demo_db_def demo_lib_def setitem_def writer_json_def writer_def)
  apply (simp add: get_session_user_def second_session_def demo_db_def)
  done

end
